theory Spec2Isabelle
  imports Complex_Main "HOL-Library.Char_ord" "HOL-Library.List_Lexorder" "HOL-Library.Multiset"
begin

section \<open>Data model (models/book.model.ts)\<close>

text \<open>
  The interfaces of \<^verbatim>\<open>book.model.ts\<close> as records. A field that is
  \<^verbatim>\<open>T | null\<close> is a \<open>T option\<close> with \<open>None\<close> for \<^verbatim>\<open>null\<close>. Identifiers, years,
  counts and page numbers are JSON integers and are modelled as \<open>int\<close>; a rating is a
  finite JSON number and is modelled as a rational, on which \<^verbatim>\<open><\<close> and \<^verbatim>\<open>></\<close> agree
  with the comparison of doubles. The two dates are milliseconds since the epoch.
  A string is a list of characters with codes up to 255 (Basic Latin and Latin-1),
  compared code by code.
  Field names follow the source; where two interfaces share a field name, or the name
  is a constant of HOL (\<^verbatim>\<open>id\<close>, \<^verbatim>\<open>filter\<close>), the field carries a prefix.
\<close>

record Book =
  book_id :: int
  title :: "string option"
  author :: "string option"
  isbn :: "string option"
  publishedYear :: "int option"
  genre :: "string option"
  status :: "string option"
  rating :: "rat option"
  createdAt :: int
  updatedAt :: int

record StatusDto =
  statusId :: int
  statusName :: "string option"

record GenreDto =
  genreId :: int
  genreName :: "string option"

text \<open>
  \<^verbatim>\<open>CreateBookRequest\<close>: an optional field (\<^verbatim>\<open>isbn?: string | null\<close>) is \<open>None\<close> when it
  is absent or \<^verbatim>\<open>null\<close>. \<^verbatim>\<open>UpdateBookRequest\<close> extends it with the id.
\<close>

record CreateBookRequest =
  req_title :: string
  req_author :: string
  req_isbn :: "string option"
  req_publishedYear :: "int option"
  req_genreId :: "int option"
  req_statusId :: int
  req_rating :: "rat option"

record UpdateBookRequest = CreateBookRequest +
  req_id :: int

datatype sort_column = Title | Author | Rating | PublishedYear | Genre | Status

datatype sort_dir = Asc | Desc

record BookFilter =
  searchTerm :: string
  filterStatusId :: "int option"
  filterGenreId :: "int option"
  sortBy :: sort_column
  sortOrder :: sort_dir

record Pagination =
  currentPage :: int
  pageSize :: int
  totalCount :: int
  totalPages :: int

record BookStateModel =
  books :: "Book list"
  selectedBook :: "Book option"
  loading :: bool
  error :: "string option"
  bookFilter :: BookFilter
  statuses :: "StatusDto list"
  genres :: "GenreDto list"
  pagination :: Pagination

text \<open>
  A value of type \<^verbatim>\<open>number | null | undefined\<close>, as the id fields of
  \<^verbatim>\<open>PaginationParams\<close> and the id signals of the list component hold it. \<open>NaN\<close> is the
  number that \<^verbatim>\<open>parseInt\<close> returns for a string without digits.
\<close>

datatype optnum = Undefined | Null | NaN | Num int

record PaginationParams =
  Page :: int
  PageSize :: int
  SearchText :: "string option"
  StatusId :: optnum
  GenreId :: optnum
  SortBy :: "string option"
  SortDir :: "sort_dir option"

record PaginatedResponse =
  items :: "Book list"
  resp_totalCount :: int
  resp_page :: int
  resp_pageSize :: int
  resp_totalPages :: int

section \<open>Printing numbers\<close>

text \<open>
  \<^verbatim>\<open>String(n)\<close>, \<^verbatim>\<open>n.toString()\<close> and a number in a template literal, for an integer
  \<open>n\<close>: the decimal digits, with a minus sign for a negative number.
\<close>

definition digit_char :: "nat \<Rightarrow> char" where
  "digit_char d = char_of (of_char CHR ''0'' + d)"

fun show_nat :: "nat \<Rightarrow> string" where
  "show_nat n = (if n < 10 then [digit_char n] else show_nat (n div 10) @ [digit_char (n mod 10)])"

declare show_nat.simps [simp del]

definition show_int :: "int \<Rightarrow> string" where
  "show_int i = (if i < 0 then CHR ''-'' # show_nat (nat (- i)) else show_nat (nat i))"

fun show_optnum :: "optnum \<Rightarrow> string" where
  "show_optnum Undefined = ''undefined''"
| "show_optnum Null = ''null''"
| "show_optnum NaN = ''NaN''"
| "show_optnum (Num n) = show_int n"

section \<open>The API client (class \<^verbatim>\<open>BookService\<close>)\<close>

text \<open>
  What the HTTP client hands to \<^verbatim>\<open>catchError\<close>: an \<^verbatim>\<open>HttpErrorResponse\<close> with its
  status, its message and its \<^verbatim>\<open>error\<close> body, which is an \<^verbatim>\<open>ErrorEvent\<close> (with a
  message of its own) for a client-side failure and anything else otherwise.
\<close>

datatype error_body = ErrorEvent string | OtherBody

record HttpErrorResponse =
  http_status :: int
  http_message :: string
  http_error :: error_body

text \<open>
  \<^verbatim>\<open>handleError\<close>. The first argument is \<^verbatim>\<open>typeof ErrorEvent !== 'undefined'\<close> (true in
  a browser, false when rendering on the server); the second is \<^verbatim>\<open>this.apiUrl\<close>, built
  from the environment file. The result is the message of the \<^verbatim>\<open>Error\<close> that the
  observable fails with.
\<close>

definition handleError :: "bool \<Rightarrow> string \<Rightarrow> HttpErrorResponse \<Rightarrow> string" where
  "handleError errorEventDefined apiUrl e =
     (case (errorEventDefined, http_error e) of
        (True, ErrorEvent m) \<Rightarrow> ''Network Error: '' @ m
      | _ \<Rightarrow>
         (if http_status e = 0
          then ''Connection Error: Unable to reach API at '' @ apiUrl
               @ ''. Make sure the API server is running on port 7181 and CORS is configured.''
          else ''Server Error ('' @ show_int (http_status e) @ ''): '' @ http_message e))"

text \<open>
  The outcome of one HTTP call: the value the observable emits, or the
  \<^verbatim>\<open>HttpErrorResponse\<close> that \<^verbatim>\<open>catchError\<close> passes to \<^verbatim>\<open>handleError\<close>.
\<close>

datatype 'a http_result = Next 'a | Failed HttpErrorResponse

text \<open>
  \<^verbatim>\<open>HttpParams\<close>: the query parameters in insertion order; \<^verbatim>\<open>set\<close> replaces the value
  of a name that is present and appends the pair otherwise.
\<close>

type_synonym HttpParams = "(string \<times> string) list"

fun set_param :: "string \<Rightarrow> string \<Rightarrow> HttpParams \<Rightarrow> HttpParams" where
  "set_param k v [] = [(k, v)]"
| "set_param k v ((k', v') # ps) = (if k' = k then (k, v) # ps else (k', v') # set_param k v ps)"

fun show_sort_dir :: "sort_dir \<Rightarrow> string" where
  "show_sort_dir Asc = ''asc''"
| "show_sort_dir Desc = ''desc''"

text \<open>
  \<^verbatim>\<open>getBooks\<close>: the query parameters of the \<^verbatim>\<open>GET /Books/paged\<close> request. A string is
  truthy when it is not empty.
\<close>

definition getBooks :: "PaginationParams \<Rightarrow> HttpParams" where
  "getBooks params =
     (let httpParams0 = set_param ''PageSize'' (show_int (PageSize params))
                          (set_param ''Page'' (show_int (Page params)) []);
          httpParams1 = (case SearchText params of
                           Some t \<Rightarrow> if t \<noteq> [] then set_param ''SearchText'' t httpParams0
                                     else httpParams0
                         | None \<Rightarrow> httpParams0);
          httpParams2 = (if StatusId params \<noteq> Undefined \<and> StatusId params \<noteq> Null
                         then set_param ''StatusId'' (show_optnum (StatusId params)) httpParams1
                         else httpParams1);
          httpParams3 = (if GenreId params \<noteq> Undefined \<and> GenreId params \<noteq> Null
                         then set_param ''GenreId'' (show_optnum (GenreId params)) httpParams2
                         else httpParams2);
          httpParams4 = (case SortBy params of
                           Some c \<Rightarrow> if c \<noteq> [] then set_param ''SortBy'' c httpParams3
                                     else httpParams3
                         | None \<Rightarrow> httpParams3)
      in (case SortDir params of
            Some d \<Rightarrow> set_param ''SortDir'' (show_sort_dir d) httpParams4
          | None \<Rightarrow> httpParams4))"

section \<open>The list state store (class \<^verbatim>\<open>BookState\<close>)\<close>

text \<open>
  The actions and the class are the two units of \<^verbatim>\<open>store/book.actions.ts\<close>.
\<close>

text \<open>The defaults of the \<^verbatim>\<open>@State\<close> decorator.\<close>

definition defaultFilter :: BookFilter where
  "defaultFilter =
     \<lparr>searchTerm = [], filterStatusId = None, filterGenreId = None,
      sortBy = Title, sortOrder = Asc\<rparr>"

definition defaults :: BookStateModel where
  "defaults =
     \<lparr>books = [], selectedBook = None, loading = False, error = None,
      bookFilter = defaultFilter, statuses = [], genres = [],
      pagination = \<lparr>currentPage = 1, pageSize = 10, totalCount = 0, totalPages = 0\<rparr>\<rparr>"

text \<open>
  The actions of \<^verbatim>\<open>book.actions.ts\<close>, one constructor per class, with the payload of
  the class.
\<close>

datatype action =
    FetchPaginatedBooks PaginationParams
  | FetchPaginatedBooksSuccess PaginatedResponse
  | FetchPaginatedBooksError string
  | FetchBooks
  | FetchBooksSuccess "Book list"
  | FetchBooksError string
  | FetchBookById int
  | FetchBookByIdSuccess Book
  | FetchBookByIdError string
  | CreateBook CreateBookRequest
  | CreateBookSuccess Book
  | CreateBookError string
  | UpdateBook UpdateBookRequest
  | UpdateBookSuccess Book
  | UpdateBookError string
  | DeleteBook int
  | DeleteBookSuccess int
  | DeleteBookError string
  | FetchStatuses
  | FetchStatusesSuccess "StatusDto list"
  | FetchStatusesError string
  | FetchGenres
  | FetchGenresSuccess "GenreDto list"
  | FetchGenresError string
  | SetBookFilter BookFilter
  | ClearBookFilter
  | ClearSelectedBook

subsection \<open>Action handlers: the state each one leaves\<close>

text \<open>
  Every handler that starts a request first runs
  \<^verbatim>\<open>ctx.patchState({ loading: true, error: null })\<close>; the request itself is the
  service call, and its outcome comes back later as a success or an error action
  (the \<open>_reply\<close> functions below). The notifications that some handlers open
  (\<^verbatim>\<open>snackBar.open\<close>) do not touch the state and are left out.
\<close>

definition fetchPaginatedBooks :: "BookStateModel \<Rightarrow> BookStateModel" where
  "fetchPaginatedBooks s = s\<lparr>loading := True, error := None\<rparr>"

definition fetchPaginatedBooksSuccess :: "PaginatedResponse \<Rightarrow> BookStateModel \<Rightarrow> BookStateModel" where
  "fetchPaginatedBooksSuccess payload s =
     s\<lparr>books := items payload,
       pagination := \<lparr>currentPage = resp_page payload, pageSize = resp_pageSize payload,
                      totalCount = resp_totalCount payload,
                      totalPages = resp_totalPages payload\<rparr>,
       loading := False, error := None\<rparr>"

definition fetchPaginatedBooksError :: "string \<Rightarrow> BookStateModel \<Rightarrow> BookStateModel" where
  "fetchPaginatedBooksError payload s = s\<lparr>loading := False, error := Some payload\<rparr>"

definition fetchBooks :: "BookStateModel \<Rightarrow> BookStateModel" where
  "fetchBooks s = s\<lparr>loading := True, error := None\<rparr>"

definition fetchBooksSuccess :: "Book list \<Rightarrow> BookStateModel \<Rightarrow> BookStateModel" where
  "fetchBooksSuccess payload s = s\<lparr>books := payload, loading := False, error := None\<rparr>"

definition fetchBooksError :: "string \<Rightarrow> BookStateModel \<Rightarrow> BookStateModel" where
  "fetchBooksError payload s = s\<lparr>loading := False, error := Some payload\<rparr>"

definition fetchBookById :: "BookStateModel \<Rightarrow> BookStateModel" where
  "fetchBookById s = s\<lparr>loading := True, error := None\<rparr>"

definition fetchBookByIdSuccess :: "Book \<Rightarrow> BookStateModel \<Rightarrow> BookStateModel" where
  "fetchBookByIdSuccess payload s =
     s\<lparr>selectedBook := Some payload, loading := False, error := None\<rparr>"

definition fetchBookByIdError :: "string \<Rightarrow> BookStateModel \<Rightarrow> BookStateModel" where
  "fetchBookByIdError payload s = s\<lparr>loading := False, error := Some payload\<rparr>"

definition createBook :: "BookStateModel \<Rightarrow> BookStateModel" where
  "createBook s = s\<lparr>loading := True, error := None\<rparr>"

definition createBookSuccess :: "Book \<Rightarrow> BookStateModel \<Rightarrow> BookStateModel" where
  "createBookSuccess payload s =
     s\<lparr>books := books s @ [payload], loading := False, error := None\<rparr>"

definition createBookError :: "string \<Rightarrow> BookStateModel \<Rightarrow> BookStateModel" where
  "createBookError payload s = s\<lparr>loading := False, error := Some payload\<rparr>"

definition updateBook :: "BookStateModel \<Rightarrow> BookStateModel" where
  "updateBook s = s\<lparr>loading := True, error := None\<rparr>"

definition updateBookSuccess :: "Book \<Rightarrow> BookStateModel \<Rightarrow> BookStateModel" where
  "updateBookSuccess payload s =
     s\<lparr>books := map (\<lambda>book. if book_id book = book_id payload then payload else book) (books s),
       selectedBook := Some payload, loading := False, error := None\<rparr>"

definition updateBookError :: "string \<Rightarrow> BookStateModel \<Rightarrow> BookStateModel" where
  "updateBookError payload s = s\<lparr>loading := False, error := Some payload\<rparr>"

definition deleteBook :: "BookStateModel \<Rightarrow> BookStateModel" where
  "deleteBook s = s\<lparr>loading := True, error := None\<rparr>"

text \<open>
  \<^verbatim>\<open>state.selectedBook?.id === action.payload\<close> is false when no book is selected
  (\<^verbatim>\<open>undefined === n\<close>).
\<close>

definition deleteBookSuccess :: "int \<Rightarrow> BookStateModel \<Rightarrow> BookStateModel" where
  "deleteBookSuccess payload s =
     s\<lparr>books := filter (\<lambda>book. book_id book \<noteq> payload) (books s),
       selectedBook := (case selectedBook s of
                          None \<Rightarrow> None
                        | Some b \<Rightarrow> if book_id b = payload then None else Some b),
       loading := False, error := None\<rparr>"

definition deleteBookError :: "string \<Rightarrow> BookStateModel \<Rightarrow> BookStateModel" where
  "deleteBookError payload s = s\<lparr>loading := False, error := Some payload\<rparr>"

text \<open>The two lookup fetches do not patch the state when they start.\<close>

definition fetchStatuses :: "BookStateModel \<Rightarrow> BookStateModel" where
  "fetchStatuses s = s"

definition fetchStatusesSuccess :: "StatusDto list \<Rightarrow> BookStateModel \<Rightarrow> BookStateModel" where
  "fetchStatusesSuccess payload s = s\<lparr>statuses := payload\<rparr>"

text \<open>The body of \<^verbatim>\<open>fetchStatusesError\<close> is a comment: it changes nothing.\<close>

definition fetchStatusesError :: "string \<Rightarrow> BookStateModel \<Rightarrow> BookStateModel" where
  "fetchStatusesError payload s = s"

definition fetchGenres :: "BookStateModel \<Rightarrow> BookStateModel" where
  "fetchGenres s = s"

definition fetchGenresSuccess :: "GenreDto list \<Rightarrow> BookStateModel \<Rightarrow> BookStateModel" where
  "fetchGenresSuccess payload s = s\<lparr>genres := payload\<rparr>"

text \<open>\<^verbatim>\<open>fetchGenresError\<close> only opens the notification.\<close>

definition fetchGenresError :: "string \<Rightarrow> BookStateModel \<Rightarrow> BookStateModel" where
  "fetchGenresError payload s = s"

text \<open>
  \<^verbatim>\<open>filter: { ...state.filter, ...action.payload }\<close>: the payload is a \<^verbatim>\<open>BookFilter\<close>
  and has every key, so each key of the old filter is overwritten.
\<close>

definition setFilter :: "BookFilter \<Rightarrow> BookStateModel \<Rightarrow> BookStateModel" where
  "setFilter payload s =
     s\<lparr>bookFilter := (bookFilter s)\<lparr>searchTerm := searchTerm payload,
                                     filterStatusId := filterStatusId payload,
                                     filterGenreId := filterGenreId payload,
                                     sortBy := sortBy payload,
                                     sortOrder := sortOrder payload\<rparr>\<rparr>"

definition clearFilter :: "BookStateModel \<Rightarrow> BookStateModel" where
  "clearFilter s =
     s\<lparr>bookFilter := \<lparr>searchTerm = [], filterStatusId = None, filterGenreId = None,
                      sortBy = Title, sortOrder = Asc\<rparr>\<rparr>"

definition clearSelectedBook :: "BookStateModel \<Rightarrow> BookStateModel" where
  "clearSelectedBook s = s\<lparr>selectedBook := None\<rparr>"

text \<open>The \<^verbatim>\<open>@Action\<close> table: which handler runs for which action.\<close>

fun reduce :: "action \<Rightarrow> BookStateModel \<Rightarrow> BookStateModel" where
  "reduce (FetchPaginatedBooks p) s = fetchPaginatedBooks s"
| "reduce (FetchPaginatedBooksSuccess r) s = fetchPaginatedBooksSuccess r s"
| "reduce (FetchPaginatedBooksError m) s = fetchPaginatedBooksError m s"
| "reduce FetchBooks s = fetchBooks s"
| "reduce (FetchBooksSuccess bs) s = fetchBooksSuccess bs s"
| "reduce (FetchBooksError m) s = fetchBooksError m s"
| "reduce (FetchBookById i) s = fetchBookById s"
| "reduce (FetchBookByIdSuccess b) s = fetchBookByIdSuccess b s"
| "reduce (FetchBookByIdError m) s = fetchBookByIdError m s"
| "reduce (CreateBook q) s = createBook s"
| "reduce (CreateBookSuccess b) s = createBookSuccess b s"
| "reduce (CreateBookError m) s = createBookError m s"
| "reduce (UpdateBook q) s = updateBook s"
| "reduce (UpdateBookSuccess b) s = updateBookSuccess b s"
| "reduce (UpdateBookError m) s = updateBookError m s"
| "reduce (DeleteBook i) s = deleteBook s"
| "reduce (DeleteBookSuccess i) s = deleteBookSuccess i s"
| "reduce (DeleteBookError m) s = deleteBookError m s"
| "reduce FetchStatuses s = fetchStatuses s"
| "reduce (FetchStatusesSuccess xs) s = fetchStatusesSuccess xs s"
| "reduce (FetchStatusesError m) s = fetchStatusesError m s"
| "reduce FetchGenres s = fetchGenres s"
| "reduce (FetchGenresSuccess xs) s = fetchGenresSuccess xs s"
| "reduce (FetchGenresError m) s = fetchGenresError m s"
| "reduce (SetBookFilter f) s = setFilter f s"
| "reduce ClearBookFilter s = clearFilter s"
| "reduce ClearSelectedBook s = clearSelectedBook s"

text \<open>Actions are handled one at a time, in the order in which they are dispatched.\<close>

definition run_actions :: "action list \<Rightarrow> BookStateModel \<Rightarrow> BookStateModel" where
  "run_actions as s = fold reduce as s"

subsection \<open>What a finished request dispatches\<close>

text \<open>
  The \<^verbatim>\<open>subscribe\<close> callbacks of the starting handlers: \<^verbatim>\<open>next\<close> dispatches the success
  action with the value, \<^verbatim>\<open>error\<close> dispatches the error action with
  \<^verbatim>\<open>error.message\<close>, which is the string that \<^verbatim>\<open>handleError\<close> built.
\<close>

fun fetchPaginatedBooks_reply :: "bool \<Rightarrow> string \<Rightarrow> PaginatedResponse http_result \<Rightarrow> action" where
  "fetchPaginatedBooks_reply ev api (Next response) = FetchPaginatedBooksSuccess response"
| "fetchPaginatedBooks_reply ev api (Failed e) = FetchPaginatedBooksError (handleError ev api e)"





text \<open>\<^verbatim>\<open>deleteBook\<close> answers with the id of its own action, the response being empty.\<close>

fun deleteBook_reply :: "bool \<Rightarrow> string \<Rightarrow> int \<Rightarrow> unit http_result \<Rightarrow> action" where
  "deleteBook_reply ev api i (Next u) = DeleteBookSuccess i"
| "deleteBook_reply ev api i (Failed e) = DeleteBookError (handleError ev api e)"



subsection \<open>The selector \<^verbatim>\<open>filteredBooks\<close>\<close>

text \<open>
  \<^verbatim>\<open>toLowerCase\<close> and \<^verbatim>\<open>includes\<close>. The capital letters among the characters up to
  code 255 are \<open>A\<close> to \<open>Z\<close> and the accented capitals \<open>0xC0\<close> to \<open>0xDE\<close> without the
  multiplication sign \<open>0xD7\<close>; the small letter of each is 32 codes above it.
\<close>

definition toLowerCase_char :: "char \<Rightarrow> char" where
  "toLowerCase_char c =
     (if (CHR ''A'' \<le> c \<and> c \<le> CHR ''Z'')
         \<or> (CHR 0xC0 \<le> c \<and> c \<le> CHR 0xDE \<and> c \<noteq> CHR 0xD7)
      then char_of (of_char c + (32::nat)) else c)"

definition toLowerCase :: "string \<Rightarrow> string" where
  "toLowerCase s = map toLowerCase_char s"

fun startsWith :: "string \<Rightarrow> string \<Rightarrow> bool" where
  "startsWith s [] = True"
| "startsWith [] (c # t) = False"
| "startsWith (x # s) (c # t) = (x = c \<and> startsWith s t)"

fun includes_str :: "string \<Rightarrow> string \<Rightarrow> bool" where
  "includes_str [] t = (t = [])"
| "includes_str (x # s) t = (startsWith (x # s) t \<or> includes_str s t)"

text \<open>\<^verbatim>\<open>x || ''\<close> and \<^verbatim>\<open>x || 0\<close> for a nullable string and a nullable number.\<close>

fun or_empty :: "string option \<Rightarrow> string" where
  "or_empty None = []"
| "or_empty (Some t) = t"

fun or_zero :: "'a::zero option \<Rightarrow> 'a" where
  "or_zero None = 0"
| "or_zero (Some n) = n"

text \<open>
  The last statement of the comparison function, on the two values of one sort
  column: \<^verbatim>\<open>aVal > bVal ? 1 : -1\<close> when the order is \<^verbatim>\<open>'asc'\<close>, and
  \<^verbatim>\<open>aVal < bVal ? 1 : -1\<close> otherwise. Strings are compared character by character
  and numbers by value.
\<close>

definition compareValues :: "sort_dir \<Rightarrow> 'a::linorder \<Rightarrow> 'a \<Rightarrow> int" where
  "compareValues ord aVal bVal =
     (if ord = Asc then (if aVal > bVal then 1 else - 1)
      else (if aVal < bVal then 1 else - 1))"

text \<open>
  The function passed to \<^verbatim>\<open>filtered.sort\<close>. The \<^verbatim>\<open>switch\<close> picks both values from the
  same field; its \<^verbatim>\<open>default\<close> branch is not reachable for a \<open>sort_column\<close>.
\<close>

definition compareBooks :: "BookFilter \<Rightarrow> Book \<Rightarrow> Book \<Rightarrow> int" where
  "compareBooks f a b =
     (case sortBy f of
        Title \<Rightarrow> compareValues (sortOrder f) (or_empty (title a)) (or_empty (title b))
      | Author \<Rightarrow> compareValues (sortOrder f) (or_empty (author a)) (or_empty (author b))
      | Genre \<Rightarrow> compareValues (sortOrder f) (or_empty (genre a)) (or_empty (genre b))
      | Status \<Rightarrow> compareValues (sortOrder f) (or_empty (status a)) (or_empty (status b))
      | Rating \<Rightarrow> compareValues (sortOrder f) (or_zero (rating a)) (or_zero (rating b))
      | PublishedYear \<Rightarrow>
          compareValues (sortOrder f) (or_zero (publishedYear a)) (or_zero (publishedYear b)))"

text \<open>
  \<^verbatim>\<open>Array.prototype.sort\<close> belongs to the JavaScript engine, not to the repository.
  For a comparison function that is a consistent comparator every engine returns the
  same array; for one that is not, the language standard leaves the order to the
  engine. The model is an insertion sort that takes the elements in array order and
  puts each one, the pivot, before the first element \<open>e\<close> already placed with
  \<^verbatim>\<open>comparefn(pivot, e) < 0\<close>, which is the question the binary insertion sort of V8
  (Chrome, Node) asks.
\<close>

fun insert_pivot :: "('a \<Rightarrow> 'a \<Rightarrow> int) \<Rightarrow> 'a \<Rightarrow> 'a list \<Rightarrow> 'a list" where
  "insert_pivot comparefn pivot [] = [pivot]"
| "insert_pivot comparefn pivot (e # es) =
     (if comparefn pivot e < 0 then pivot # e # es else e # insert_pivot comparefn pivot es)"

definition array_sort :: "('a \<Rightarrow> 'a \<Rightarrow> int) \<Rightarrow> 'a list \<Rightarrow> 'a list" where
  "array_sort comparefn xs = foldl (\<lambda>placed pivot. insert_pivot comparefn pivot placed) [] xs"

text \<open>The three filters of \<^verbatim>\<open>filteredBooks\<close>, in the order of the source.\<close>

definition searchFiltered :: "BookStateModel \<Rightarrow> Book list" where
  "searchFiltered state =
     (if searchTerm (bookFilter state) \<noteq> []
      then (let term = toLowerCase (searchTerm (bookFilter state))
            in filter (\<lambda>book.
                 (case title book of None \<Rightarrow> False | Some t \<Rightarrow> includes_str (toLowerCase t) term)
                 \<or> (case author book of None \<Rightarrow> False | Some a \<Rightarrow> includes_str (toLowerCase a) term))
               (books state))
      else books state)"

definition genreFiltered :: "BookStateModel \<Rightarrow> Book list \<Rightarrow> Book list" where
  "genreFiltered state filtered =
     (case filterGenreId (bookFilter state) of
        None \<Rightarrow> filtered
      | Some gid \<Rightarrow>
          filter (\<lambda>book.
            (case find (\<lambda>g. genreId g = gid) (genres state) of
               None \<Rightarrow> False
             | Some g \<Rightarrow> genre book = genreName g))
          filtered)"

definition statusFiltered :: "BookStateModel \<Rightarrow> Book list \<Rightarrow> Book list" where
  "statusFiltered state filtered =
     (case filterStatusId (bookFilter state) of
        None \<Rightarrow> filtered
      | Some sid \<Rightarrow>
          (case find (\<lambda>s. statusId s = sid) (statuses state) of
             None \<Rightarrow> filtered
           | Some selectedStatus \<Rightarrow>
               filter (\<lambda>book. status book = statusName selectedStatus) filtered))"

definition filteredBooks :: "BookStateModel \<Rightarrow> Book list" where
  "filteredBooks state =
     array_sort (compareBooks (bookFilter state))
       (statusFiltered state (genreFiltered state (searchFiltered state)))"

section \<open>The list component (class \<^verbatim>\<open>BookListComponent\<close>)\<close>

text \<open>
  The class is the second unit of \<^verbatim>\<open>components/book-detail/book-detail.component.ts\<close>.
\<close>

record SortConfig =
  column :: sort_column
  direction :: sort_dir

text \<open>
  The operations below end in \<^verbatim>\<open>setTimeout(callback, this.ANIM_MS)\<close>. Their callbacks
  have five shapes: set the page to 1 and load (search, genre, status, sort); set the
  page size, set the page to 1 and load (\<^verbatim>\<open>changePageSize\<close>); set the page to a given
  number and load (\<^verbatim>\<open>goToPage\<close>); set the page to one less, or to one more, than it is
  when the callback runs and load (\<^verbatim>\<open>previousPage\<close>, \<^verbatim>\<open>nextPage\<close>). The callback of
  \<^verbatim>\<open>deleteBook\<close> dispatches no page request and writes none of the signals below,
  and the callback of the \<^verbatim>\<open>loading$\<close> subscription only clears the flag
  \<^verbatim>\<open>animateList\<close>; the two are left out.
\<close>

datatype callback =
    ReloadFirstPage
  | ApplyPageSize int
  | ShowPage int
  | ShowPreviousPage
  | ShowNextPage

text \<open>
  The signals of the component that the operations read or write (the signals share
  names with fields of the store and carry the suffix \<open>_sig\<close>), the callbacks waiting
  for their timeout, oldest first, and the \<^verbatim>\<open>FetchPaginatedBooks\<close> payloads dispatched
  so far.
\<close>

record BookListComponent =
  searchTerm_sig :: string
  selectedGenreId :: optnum
  selectedStatusId :: optnum
  sortConfig :: SortConfig
  currentPage_sig :: int
  pageSize_sig :: int
  totalBooks :: int
  totalPages_sig :: int
  animateListOut :: bool
  timers :: "callback list"
  dispatched :: "PaginationParams list"

text \<open>
  \<^verbatim>\<open>parseInt(s, 10)\<close>: leading white space (tab, line feed, vertical tab, form feed,
  carriage return, space, no-break space) is skipped, one sign is read, then the
  longest run of decimal digits; without a digit the result is \<open>NaN\<close>.
\<close>

definition is_space :: "char \<Rightarrow> bool" where
  "is_space c = (c = CHR 0x09 \<or> c = CHR 0x0A \<or> c = CHR 0x0B \<or> c = CHR 0x0C
                 \<or> c = CHR 0x0D \<or> c = CHR 0x20 \<or> c = CHR 0xA0)"

definition is_digit :: "char \<Rightarrow> bool" where
  "is_digit c = (CHR ''0'' \<le> c \<and> c \<le> CHR ''9'')"

definition digit_val :: "char \<Rightarrow> nat" where
  "digit_val c = of_char c - of_char CHR ''0''"

definition digits_val :: "string \<Rightarrow> nat" where
  "digits_val z = foldl (\<lambda>n c. 10 * n + digit_val c) 0 z"

definition parseInt10 :: "string \<Rightarrow> optnum" where
  "parseInt10 inputString =
     (let s = dropWhile is_space inputString;
          neg = (s \<noteq> [] \<and> hd s = CHR ''-'');
          s1 = (if s \<noteq> [] \<and> (hd s = CHR ''-'' \<or> hd s = CHR ''+'') then tl s else s);
          z = takeWhile is_digit s1
      in if z = [] then NaN
         else Num (if neg then - int (digits_val z) else int (digits_val z)))"

text \<open>A number or \<^verbatim>\<open>null\<close> is truthy when it is a number other than 0 and \<open>NaN\<close>.\<close>

fun truthy :: "optnum \<Rightarrow> bool" where
  "truthy (Num n) = (n \<noteq> 0)"
| "truthy _ = False"

text \<open>\<^verbatim>\<open>x || undefined\<close>\<close>

definition or_undefined :: "optnum \<Rightarrow> optnum" where
  "or_undefined x = (if truthy x then x else Undefined)"

fun show_column :: "sort_column \<Rightarrow> string" where
  "show_column Title = ''title''"
| "show_column Author = ''author''"
| "show_column Genre = ''genre''"
| "show_column Status = ''status''"
| "show_column Rating = ''rating''"
| "show_column PublishedYear = ''publishedYear''"

text \<open>\<^verbatim>\<open>loadData\<close>: the parameters it builds, and the dispatch.\<close>

definition loadData_params :: "BookListComponent \<Rightarrow> PaginationParams" where
  "loadData_params c =
     \<lparr>Page = currentPage_sig c,
      PageSize = pageSize_sig c,
      SearchText = (if searchTerm_sig c \<noteq> [] then Some (searchTerm_sig c) else None),
      StatusId = or_undefined (selectedStatusId c),
      GenreId = or_undefined (selectedGenreId c),
      SortBy = Some (show_column (column (sortConfig c))),
      SortDir = Some (direction (sortConfig c))\<rparr>"

definition loadData :: "BookListComponent \<Rightarrow> BookListComponent" where
  "loadData c = c\<lparr>dispatched := dispatched c @ [loadData_params c]\<rparr>"

definition onSearch :: "string \<Rightarrow> BookListComponent \<Rightarrow> BookListComponent" where
  "onSearch term c =
     c\<lparr>searchTerm_sig := term, animateListOut := True, timers := timers c @ [ReloadFirstPage]\<rparr>"

definition onGenreChange :: "string \<Rightarrow> BookListComponent \<Rightarrow> BookListComponent" where
  "onGenreChange genreId_str c =
     c\<lparr>selectedGenreId := (if genreId_str \<noteq> [] then parseInt10 genreId_str else Null),
       animateListOut := True, timers := timers c @ [ReloadFirstPage]\<rparr>"

definition onStatusChange :: "string \<Rightarrow> BookListComponent \<Rightarrow> BookListComponent" where
  "onStatusChange statusId_str c =
     c\<lparr>selectedStatusId := (if statusId_str \<noteq> [] then parseInt10 statusId_str else Null),
       animateListOut := True, timers := timers c @ [ReloadFirstPage]\<rparr>"

definition onSortChange :: "sort_column \<Rightarrow> BookListComponent \<Rightarrow> BookListComponent" where
  "onSortChange col c =
     (let current = sortConfig c
      in c\<lparr>sortConfig :=
             (if column current = col
              then \<lparr>column = col, direction = (if direction current = Asc then Desc else Asc)\<rparr>
              else \<lparr>column = col, direction = Asc\<rparr>),
           animateListOut := True, timers := timers c @ [ReloadFirstPage]\<rparr>)"

definition changePageSize :: "int \<Rightarrow> BookListComponent \<Rightarrow> BookListComponent" where
  "changePageSize size' c = c\<lparr>animateListOut := True, timers := timers c @ [ApplyPageSize size']\<rparr>"

text \<open>Page navigation, with the guards of the source.\<close>

definition canPreviousPage :: "BookListComponent \<Rightarrow> bool" where
  "canPreviousPage c = (currentPage_sig c > 1)"

definition canNextPage :: "BookListComponent \<Rightarrow> bool" where
  "canNextPage c = (currentPage_sig c < totalPages_sig c)"

definition goToPage :: "int \<Rightarrow> BookListComponent \<Rightarrow> BookListComponent" where
  "goToPage page c =
     (if page \<ge> 1 \<and> page \<le> totalPages_sig c
      then c\<lparr>animateListOut := True, timers := timers c @ [ShowPage page]\<rparr>
      else c)"

definition previousPage :: "BookListComponent \<Rightarrow> BookListComponent" where
  "previousPage c =
     (if canPreviousPage c
      then c\<lparr>animateListOut := True, timers := timers c @ [ShowPreviousPage]\<rparr>
      else c)"

definition nextPage :: "BookListComponent \<Rightarrow> BookListComponent" where
  "nextPage c =
     (if canNextPage c
      then c\<lparr>animateListOut := True, timers := timers c @ [ShowNextPage]\<rparr>
      else c)"

text \<open>
  The subscription to \<^verbatim>\<open>pagination$\<close> set up in \<^verbatim>\<open>ngOnInit\<close>: whenever the store
  emits its pagination, the four numbers are copied into the signals.
\<close>

definition paginationChanged :: "Pagination \<Rightarrow> BookListComponent \<Rightarrow> BookListComponent" where
  "paginationChanged p c =
     c\<lparr>currentPage_sig := currentPage p, pageSize_sig := pageSize p,
       totalBooks := totalCount p, totalPages_sig := totalPages p\<rparr>"

text \<open>The bodies of the callbacks.\<close>

fun run_callback :: "callback \<Rightarrow> BookListComponent \<Rightarrow> BookListComponent" where
  "run_callback ReloadFirstPage c = (loadData (c\<lparr>currentPage_sig := 1\<rparr>))\<lparr>animateListOut := False\<rparr>"
| "run_callback (ApplyPageSize size') c =
     (loadData (c\<lparr>pageSize_sig := size', currentPage_sig := 1\<rparr>))\<lparr>animateListOut := False\<rparr>"
| "run_callback (ShowPage page) c =
     (loadData (c\<lparr>currentPage_sig := page\<rparr>))\<lparr>animateListOut := False\<rparr>"
| "run_callback ShowPreviousPage c =
     (loadData (c\<lparr>currentPage_sig := currentPage_sig c - 1\<rparr>))\<lparr>animateListOut := False\<rparr>"
| "run_callback ShowNextPage c =
     (loadData (c\<lparr>currentPage_sig := currentPage_sig c + 1\<rparr>))\<lparr>animateListOut := False\<rparr>"

text \<open>
  All timeouts have the same delay, so the callbacks run in the order in which they
  were set: a timeout runs the oldest waiting callback.
\<close>

definition timeout :: "BookListComponent \<Rightarrow> BookListComponent" where
  "timeout c = (case timers c of [] \<Rightarrow> c | cb # rest \<Rightarrow> run_callback cb (c\<lparr>timers := rest\<rparr>))"

text \<open>
  What happens to the component: the user changes the search text, the genre, the
  status, clicks a column header, changes the page size or moves to another page;
  the store emits its pagination; a timeout expires.
\<close>

datatype event =
    OnSearch string
  | OnGenreChange string
  | OnStatusChange string
  | OnSortChange sort_column
  | ChangePageSize int
  | GoToPage int
  | PreviousPage
  | NextPage
  | PaginationChanged Pagination
  | Timeout

fun step :: "event \<Rightarrow> BookListComponent \<Rightarrow> BookListComponent" where
  "step (OnSearch term) c = onSearch term c"
| "step (OnGenreChange g) c = onGenreChange g c"
| "step (OnStatusChange s) c = onStatusChange s c"
| "step (OnSortChange col) c = onSortChange col c"
| "step (ChangePageSize size') c = changePageSize size' c"
| "step (GoToPage page) c = goToPage page c"
| "step PreviousPage c = previousPage c"
| "step NextPage c = nextPage c"
| "step (PaginationChanged p) c = paginationChanged p c"
| "step Timeout c = timeout c"

definition run_events :: "event list \<Rightarrow> BookListComponent \<Rightarrow> BookListComponent" where
  "run_events es c = fold step es c"

text \<open>Letting every waiting callback run.\<close>

definition settle :: "BookListComponent \<Rightarrow> BookListComponent" where
  "settle c = fold run_callback (timers c) (c\<lparr>timers := []\<rparr>)"

section \<open>Vocabulary for the properties\<close>

subsection \<open>Failures and actions by kind\<close>






subsection \<open>The settings a history of events leaves\<close>

text \<open>
  What an event sets: a search text, a genre, a status or a page size. \<open>last_set\<close> is
  the value set most recently in a list of events, and the given value when no event
  of the list sets one.
\<close>

fun search_set :: "event \<Rightarrow> string option" where
  "search_set (OnSearch term) = Some term"
| "search_set _ = None"

fun genre_set :: "event \<Rightarrow> optnum option" where
  "genre_set (OnGenreChange g) = Some (if g \<noteq> [] then parseInt10 g else Null)"
| "genre_set _ = None"

fun status_set :: "event \<Rightarrow> optnum option" where
  "status_set (OnStatusChange s) = Some (if s \<noteq> [] then parseInt10 s else Null)"
| "status_set _ = None"

fun size_set :: "event \<Rightarrow> int option" where
  "size_set (ChangePageSize n) = Some n"
| "size_set _ = None"

definition last_set :: "(event \<Rightarrow> 'a option) \<Rightarrow> event list \<Rightarrow> 'a \<Rightarrow> 'a" where
  "last_set sel es d = last (d # List.map_filter sel es)"

text \<open>
  The sort rule in the words of the specification: a click on the active column
  toggles the direction, a click on another column selects it with ascending
  direction. \<open>sort_after\<close> applies the clicks of a list of events in order.
\<close>

fun click :: "event \<Rightarrow> SortConfig \<Rightarrow> SortConfig" where
  "click (OnSortChange col) sc =
     (if column sc = col then sc\<lparr>direction := (if direction sc = Asc then Desc else Asc)\<rparr>
      else \<lparr>column = col, direction = Asc\<rparr>)"
| "click _ sc = sc"

definition sort_after :: "event list \<Rightarrow> SortConfig \<Rightarrow> SortConfig" where
  "sort_after es sc = fold click es sc"

text \<open>
  The five changes of the result set: search text, genre, status, sort column, page
  size. The callbacks they set are the two that put the page back to 1.
\<close>

fun filter_change :: "event \<Rightarrow> bool" where
  "filter_change (OnSearch term) = True"
| "filter_change (OnGenreChange g) = True"
| "filter_change (OnStatusChange s) = True"
| "filter_change (OnSortChange col) = True"
| "filter_change (ChangePageSize n) = True"
| "filter_change _ = False"

fun resets_page :: "callback \<Rightarrow> bool" where
  "resets_page ReloadFirstPage = True"
| "resets_page (ApplyPageSize n) = True"
| "resets_page _ = False"

text \<open>
  A history in which nothing happens but such changes and timeouts, and the changes
  of such a history.
\<close>

definition only_filter_changes :: "event list \<Rightarrow> bool" where
  "only_filter_changes es = list_all (\<lambda>e. filter_change e \<or> e = Timeout) es"

definition user_changes :: "event list \<Rightarrow> event list" where
  "user_changes es = filter (\<lambda>e. e \<noteq> Timeout) es"

text \<open>The page size once the waiting callbacks have run.\<close>

fun pending_size :: "callback list \<Rightarrow> int \<Rightarrow> int" where
  "pending_size [] d = d"
| "pending_size (ApplyPageSize n # q) d = pending_size q n"
| "pending_size (cb # q) d = pending_size q d"

text \<open>
  The actions whose handlers write the books, and the page responses among them.
\<close>

fun writes_books :: "action \<Rightarrow> bool" where
  "writes_books (FetchPaginatedBooksSuccess r) = True"
| "writes_books (FetchBooksSuccess bs) = True"
| "writes_books (CreateBookSuccess b) = True"
| "writes_books (UpdateBookSuccess b) = True"
| "writes_books (DeleteBookSuccess i) = True"
| "writes_books _ = False"

fun page_response :: "action \<Rightarrow> bool" where
  "page_response (FetchPaginatedBooksSuccess r) = True"
| "page_response _ = False"

text \<open>
  The query parameters that stand for a page, a page size, a search text, a selected
  status and genre and a sort configuration: the page and the size always, the search
  text when it is not empty, an id when it is truthy, then the sort column and the
  direction.
\<close>

definition expected_request ::
  "int \<Rightarrow> int \<Rightarrow> string \<Rightarrow> optnum \<Rightarrow> optnum \<Rightarrow> SortConfig \<Rightarrow> HttpParams" where
  "expected_request page size' search statusSel genreSel sc =
     [(''Page'', show_int page), (''PageSize'', show_int size')]
     @ (if search \<noteq> [] then [(''SearchText'', search)] else [])
     @ (if truthy statusSel then [(''StatusId'', show_optnum statusSel)] else [])
     @ (if truthy genreSel then [(''GenreId'', show_optnum genreSel)] else [])
     @ [(''SortBy'', show_column (column sc)), (''SortDir'', show_sort_dir (direction sc))]"

section \<open>Example data\<close>

text \<open>Concrete books, pages and component states, used where a property is run.\<close>

definition book_of :: "int \<Rightarrow> string \<Rightarrow> string \<Rightarrow> Book" where
  "book_of i t a =
     \<lparr>book_id = i, title = Some t, author = Some a, isbn = None, publishedYear = None,
      genre = None, status = None, rating = None, createdAt = 0, updatedAt = 0\<rparr>"

definition three_books :: "Book list" where
  "three_books =
     [book_of 1 ''Dune'' ''Herbert'', book_of 2 ''Emma'' ''Austen'',
      book_of 3 ''Ulysses'' ''Joyce'']"

definition page_of_three :: PaginatedResponse where
  "page_of_three =
     \<lparr>items = three_books, resp_totalCount = 3, resp_page = 1, resp_pageSize = 10,
      resp_totalPages = 1\<rparr>"

text \<open>A store that shows the three books, the second one selected.\<close>

definition shelf :: BookStateModel where
  "shelf = defaults\<lparr>books := three_books, selectedBook := Some (book_of 2 ''Emma'' ''Austen'')\<rparr>"

text \<open>The initial values of the signals of the list component.\<close>

definition initial_component :: BookListComponent where
  "initial_component =
     \<lparr>searchTerm_sig = [], selectedGenreId = Null, selectedStatusId = Null,
      sortConfig = \<lparr>column = Title, direction = Asc\<rparr>,
      currentPage_sig = 1, pageSize_sig = 10, totalBooks = 0, totalPages_sig = 0,
      animateListOut = False, timers = [], dispatched = []\<rparr>"


text \<open>
  Two page requests, for page 1 and then for page 2 of a catalogue of two books shown
  one per page, and the server's answers to them.
\<close>

definition first_page_request :: PaginationParams where
  "first_page_request = loadData_params (initial_component\<lparr>pageSize_sig := 1\<rparr>)"

definition second_page_request :: PaginationParams where
  "second_page_request =
     loadData_params (initial_component\<lparr>pageSize_sig := 1, currentPage_sig := 2\<rparr>)"

definition first_page_response :: PaginatedResponse where
  "first_page_response =
     \<lparr>items = [book_of 1 ''Dune'' ''Herbert''], resp_totalCount = 2, resp_page = 1,
      resp_pageSize = 1, resp_totalPages = 2\<rparr>"

definition second_page_response :: PaginatedResponse where
  "second_page_response =
     \<lparr>items = [book_of 2 ''Emma'' ''Austen''], resp_totalCount = 2, resp_page = 2,
      resp_pageSize = 1, resp_totalPages = 2\<rparr>"




text \<open>Two copies of one title, and a store that shows them.\<close>

definition emma_first :: Book where
  "emma_first = book_of 1 ''Emma'' ''Austen''"

definition emma_second :: Book where
  "emma_second = book_of 2 ''Emma'' ''Austen''"

definition two_copies :: BookStateModel where
  "two_copies = defaults\<lparr>books := [emma_first, emma_second]\<rparr>"

section \<open>Properties of the store\<close>

lemmas handler_defs =
  fetchPaginatedBooks_def fetchPaginatedBooksSuccess_def fetchPaginatedBooksError_def
  fetchBooks_def fetchBooksSuccess_def fetchBooksError_def
  fetchBookById_def fetchBookByIdSuccess_def fetchBookByIdError_def
  createBook_def createBookSuccess_def createBookError_def
  updateBook_def updateBookSuccess_def updateBookError_def
  deleteBook_def deleteBookSuccess_def deleteBookError_def
  fetchStatuses_def fetchStatusesSuccess_def fetchStatusesError_def
  fetchGenres_def fetchGenresSuccess_def fetchGenresError_def
  setFilter_def clearFilter_def clearSelectedBook_def

lemma show_nat_nonempty: "show_nat n \<noteq> []"
  by (subst show_nat.simps) simp

lemma handleError_nonempty: "handleError ev api e \<noteq> []"
  by (cases ev; cases "http_error e") (simp_all add: handleError_def)

text \<open>
  Claim C1. A page fetch that fails leaves the books and the pagination metadata as
  they were when the failure arrived, stores the message built by \<^verbatim>\<open>handleError\<close>,
  which is never empty, in \<open>error\<close>, and sets \<open>loading\<close> to false. Starting the fetch
  does not touch the books or the pagination either.
\<close>

theorem fetchPage_failure_keeps_books:
  "books (reduce (fetchPaginatedBooks_reply ev api (Failed e)) s) = books s
   \<and> pagination (reduce (fetchPaginatedBooks_reply ev api (Failed e)) s) = pagination s
   \<and> error (reduce (fetchPaginatedBooks_reply ev api (Failed e)) s) = Some (handleError ev api e)
   \<and> handleError ev api e \<noteq> []
   \<and> \<not> loading (reduce (fetchPaginatedBooks_reply ev api (Failed e)) s)
   \<and> books (reduce (FetchPaginatedBooks p) s) = books s
   \<and> pagination (reduce (FetchPaginatedBooks p) s) = pagination s"
  by (simp add: fetchPaginatedBooksError_def fetchPaginatedBooks_def handleError_nonempty)

text \<open>
  Claim C2. Dispatching a page fetch sets \<open>loading\<close> and clears \<open>error\<close>. When the
  response arrives, the books are the items of the response, the four pagination
  fields are the four numbers of the response, \<open>loading\<close> is false and \<open>error\<close> is
  null. A response with three items, a total count of 3 and a total of 1 page gives
  three books and \<open>totalPages = 1\<close>.
\<close>

theorem fetchPage_success_copies_response:
  "loading (reduce (FetchPaginatedBooks p) s)
   \<and> error (reduce (FetchPaginatedBooks p) s) = None
   \<and> books (reduce (fetchPaginatedBooks_reply ev api (Next r)) s) = items r
   \<and> pagination (reduce (fetchPaginatedBooks_reply ev api (Next r)) s)
       = \<lparr>currentPage = resp_page r, pageSize = resp_pageSize r,
          totalCount = resp_totalCount r, totalPages = resp_totalPages r\<rparr>
   \<and> \<not> loading (reduce (fetchPaginatedBooks_reply ev api (Next r)) s)
   \<and> error (reduce (fetchPaginatedBooks_reply ev api (Next r)) s) = None
   \<and> (length (items r) = 3 \<and> resp_totalCount r = 3 \<and> resp_totalPages r = 1 \<longrightarrow>
        length (books (reduce (fetchPaginatedBooks_reply ev api (Next r)) s)) = 3
        \<and> totalPages (pagination (reduce (fetchPaginatedBooks_reply ev api (Next r)) s)) = 1)"
  by (simp add: fetchPaginatedBooksSuccess_def fetchPaginatedBooks_def)

theorem fetchPage_success_copies_response_witness:
  "length (items page_of_three) = 3 \<and> resp_totalCount page_of_three = 3
   \<and> resp_totalPages page_of_three = 1
   \<and> length (books (reduce (fetchPaginatedBooks_reply True ''/api/Books''
                              (Next page_of_three)) defaults)) = 3
   \<and> totalPages (pagination (reduce (fetchPaginatedBooks_reply True ''/api/Books''
                                       (Next page_of_three)) defaults)) = 1"
  using fetchPage_success_copies_response
          [of first_page_request defaults True "''/api/Books''" page_of_three]
  by (simp add: page_of_three_def three_books_def)

text \<open>
  The store applies every page response it receives: after any run of actions, the
  state shows the response that arrived last.
\<close>

theorem stale_response_overwrites_newer:
  "Page first_page_request = 1 \<and> Page second_page_request = 2
   \<and> books (run_actions [FetchPaginatedBooks first_page_request,
                         FetchPaginatedBooks second_page_request,
                         FetchPaginatedBooksSuccess second_page_response] defaults)
       = items second_page_response
   \<and> books (run_actions [FetchPaginatedBooks first_page_request,
                         FetchPaginatedBooks second_page_request,
                         FetchPaginatedBooksSuccess second_page_response,
                         FetchPaginatedBooksSuccess first_page_response] defaults)
       = items first_page_response
   \<and> currentPage (pagination (run_actions [FetchPaginatedBooks first_page_request,
                         FetchPaginatedBooks second_page_request,
                         FetchPaginatedBooksSuccess second_page_response,
                         FetchPaginatedBooksSuccess first_page_response] defaults)) = 1
   \<and> items first_page_response \<noteq> items second_page_response"
  by (simp add: run_actions_def fetchPaginatedBooks_def fetchPaginatedBooksSuccess_def
      first_page_request_def second_page_request_def first_page_response_def
      second_page_response_def loadData_params_def initial_component_def book_of_def)

lemma reduce_keeps_books: "\<not> writes_books a \<Longrightarrow> books (reduce a s) = books s"
  by (cases a) (simp_all add: handler_defs)

lemma reduce_keeps_pagination: "\<not> page_response a \<Longrightarrow> pagination (reduce a s) = pagination s"
  by (cases a) (simp_all add: handler_defs)

lemma fold_keeps_books:
  "\<forall>a\<in>set bs. \<not> writes_books a \<Longrightarrow> books (fold reduce bs s) = books s"
  by (induction bs arbitrary: s) (simp_all add: reduce_keeps_books)

lemma fold_keeps_pagination:
  "\<forall>a\<in>set bs. \<not> page_response a \<Longrightarrow> pagination (fold reduce bs s) = pagination s"
  by (induction bs arbitrary: s) (simp_all add: reduce_keeps_pagination)

text \<open>
  Claim C3, as the code has it. There is no request token in the store, and every
  page response that arrives is applied: whatever actions came before it, in whatever
  order the requests were issued, the books and the pagination right after a page
  response are those of that response. They stay so while the actions that follow
  leave them alone: the books until the next action that writes books, the pagination
  until the next page response. The page response that arrives last wins.
\<close>

theorem last_response_wins:
  "books (run_actions (as @ [FetchPaginatedBooksSuccess r]) s) = items r
   \<and> pagination (run_actions (as @ [FetchPaginatedBooksSuccess r]) s)
       = \<lparr>currentPage = resp_page r, pageSize = resp_pageSize r,
          totalCount = resp_totalCount r, totalPages = resp_totalPages r\<rparr>
   \<and> ((\<forall>a\<in>set bs. \<not> writes_books a) \<longrightarrow>
        books (run_actions (as @ FetchPaginatedBooksSuccess r # bs) s) = items r)
   \<and> ((\<forall>a\<in>set bs. \<not> page_response a) \<longrightarrow>
        pagination (run_actions (as @ FetchPaginatedBooksSuccess r # bs) s)
          = \<lparr>currentPage = resp_page r, pageSize = resp_pageSize r,
             totalCount = resp_totalCount r, totalPages = resp_totalPages r\<rparr>)"
  by (simp add: run_actions_def fetchPaginatedBooksSuccess_def fold_keeps_books
        fold_keeps_pagination)

theorem last_response_wins_witness:
  "\<not> writes_books (FetchStatusesSuccess []) \<and> \<not> writes_books ClearSelectedBook
   \<and> books (run_actions ([FetchPaginatedBooks first_page_request,
                          FetchPaginatedBooks second_page_request,
                          FetchPaginatedBooksSuccess second_page_response]
                         @ FetchPaginatedBooksSuccess first_page_response
                           # [FetchStatusesSuccess [], ClearSelectedBook]) defaults)
       = items first_page_response
   \<and> \<not> page_response (CreateBookSuccess (book_of 3 ''Ulysses'' ''Joyce''))
   \<and> pagination (run_actions ([FetchPaginatedBooks first_page_request,
                               FetchPaginatedBooks second_page_request,
                               FetchPaginatedBooksSuccess second_page_response]
                              @ FetchPaginatedBooksSuccess first_page_response
                                # [CreateBookSuccess (book_of 3 ''Ulysses'' ''Joyce'')]) defaults)
       = \<lparr>currentPage = resp_page first_page_response,
          pageSize = resp_pageSize first_page_response,
          totalCount = resp_totalCount first_page_response,
          totalPages = resp_totalPages first_page_response\<rparr>"
  using last_response_wins
          [of "[FetchPaginatedBooks first_page_request, FetchPaginatedBooks second_page_request,
                FetchPaginatedBooksSuccess second_page_response]"
              first_page_response defaults "[FetchStatusesSuccess [], ClearSelectedBook]"]
        last_response_wins
          [of "[FetchPaginatedBooks first_page_request, FetchPaginatedBooks second_page_request,
                FetchPaginatedBooksSuccess second_page_response]"
              first_page_response defaults "[CreateBookSuccess (book_of 3 ''Ulysses'' ''Joyce'')]"]
  by simp

lemma filter_no_match: "\<forall>x\<in>set xs. f x \<noteq> i \<Longrightarrow> filter (\<lambda>x. f x \<noteq> i) xs = xs"
  by (induction xs) auto

text \<open>
  Claim C4. In a state whose books have pairwise distinct ids, a successful delete of
  id \<open>i\<close> removes the record with that id and keeps the records before and after it,
  in their order; it changes nothing when no record has the id. The selected book
  becomes null exactly when a book was selected and its id is \<open>i\<close>; otherwise it is
  unchanged.
\<close>

theorem delete_removes_matching_record:
  assumes "distinct (map book_id (books s))"
  shows "(\<forall>xs b ys. books s = xs @ b # ys \<and> book_id b = i \<longrightarrow>
            books (reduce (deleteBook_reply ev api i (Next ())) s) = xs @ ys)
       \<and> (i \<notin> book_id ` set (books s) \<longrightarrow>
            books (reduce (deleteBook_reply ev api i (Next ())) s) = books s)
       \<and> selectedBook (reduce (deleteBook_reply ev api i (Next ())) s)
           = (if \<exists>b. selectedBook s = Some b \<and> book_id b = i then None else selectedBook s)"
proof (intro conjI allI impI)
  fix xs b ys
  assume h: "books s = xs @ b # ys \<and> book_id b = i"
  with assms have "\<forall>x\<in>set xs. book_id x \<noteq> i" "\<forall>x\<in>set ys. book_id x \<noteq> i"
    by (auto simp: image_iff)
  then have "filter (\<lambda>x. book_id x \<noteq> i) xs = xs" "filter (\<lambda>x. book_id x \<noteq> i) ys = ys"
    by (simp_all add: filter_no_match)
  with h show "books (reduce (deleteBook_reply ev api i (Next ())) s) = xs @ ys"
    by (simp add: deleteBookSuccess_def)
next
  assume "i \<notin> book_id ` set (books s)"
  then have "\<forall>x\<in>set (books s). book_id x \<noteq> i" by auto
  then show "books (reduce (deleteBook_reply ev api i (Next ())) s) = books s"
    by (simp add: deleteBookSuccess_def filter_no_match)
next
  show "selectedBook (reduce (deleteBook_reply ev api i (Next ())) s)
           = (if \<exists>b. selectedBook s = Some b \<and> book_id b = i then None else selectedBook s)"
    by (simp add: deleteBookSuccess_def split: option.splits)
qed

theorem delete_removes_matching_record_witness:
  "distinct (map book_id (books shelf))
   \<and> books shelf = [book_of 1 ''Dune'' ''Herbert''] @ book_of 2 ''Emma'' ''Austen''
                      # [book_of 3 ''Ulysses'' ''Joyce'']
   \<and> book_id (book_of 2 ''Emma'' ''Austen'') = 2
   \<and> books (reduce (deleteBook_reply True ''/api/Books'' 2 (Next ())) shelf)
       = [book_of 1 ''Dune'' ''Herbert''] @ [book_of 3 ''Ulysses'' ''Joyce'']
   \<and> selectedBook (reduce (deleteBook_reply True ''/api/Books'' 2 (Next ())) shelf) = None"
proof -
  have d: "distinct (map book_id (books shelf))"
    by (simp add: shelf_def three_books_def book_of_def)
  have sp: "books shelf = [book_of 1 ''Dune'' ''Herbert''] @ book_of 2 ''Emma'' ''Austen''
                      # [book_of 3 ''Ulysses'' ''Joyce'']
            \<and> book_id (book_of 2 ''Emma'' ''Austen'') = 2"
    by (simp add: shelf_def three_books_def book_of_def)
  have sel: "\<exists>b. selectedBook shelf = Some b \<and> book_id b = 2"
    by (simp add: shelf_def book_of_def)
  note r = delete_removes_matching_record [OF d, of 2 True "''/api/Books''"]
  from r sp have "books (reduce (deleteBook_reply True ''/api/Books'' 2 (Next ())) shelf)
       = [book_of 1 ''Dune'' ''Herbert''] @ [book_of 3 ''Ulysses'' ''Joyce'']"
    by blast
  moreover from r sel
  have "selectedBook (reduce (deleteBook_reply True ''/api/Books'' 2 (Next ())) shelf) = None"
    by presburger
  ultimately show ?thesis using d sp by blast
qed

text \<open>
  Claim C10. The success handlers of create, update and delete leave the pagination,
  the filter and the two lookup tables as they were; and an action that changes the
  pagination is a page-fetch success.
\<close>

theorem pagination_frame:
  "pagination (reduce (CreateBookSuccess b) s) = pagination s
   \<and> bookFilter (reduce (CreateBookSuccess b) s) = bookFilter s
   \<and> statuses (reduce (CreateBookSuccess b) s) = statuses s
   \<and> genres (reduce (CreateBookSuccess b) s) = genres s
   \<and> pagination (reduce (UpdateBookSuccess b) s) = pagination s
   \<and> bookFilter (reduce (UpdateBookSuccess b) s) = bookFilter s
   \<and> statuses (reduce (UpdateBookSuccess b) s) = statuses s
   \<and> genres (reduce (UpdateBookSuccess b) s) = genres s
   \<and> pagination (reduce (DeleteBookSuccess i) s) = pagination s
   \<and> bookFilter (reduce (DeleteBookSuccess i) s) = bookFilter s
   \<and> statuses (reduce (DeleteBookSuccess i) s) = statuses s
   \<and> genres (reduce (DeleteBookSuccess i) s) = genres s
   \<and> (pagination (reduce a s) \<noteq> pagination s \<longrightarrow> (\<exists>r. a = FetchPaginatedBooksSuccess r))"
proof -
  have frame: "pagination (reduce (CreateBookSuccess b) s) = pagination s
   \<and> bookFilter (reduce (CreateBookSuccess b) s) = bookFilter s
   \<and> statuses (reduce (CreateBookSuccess b) s) = statuses s
   \<and> genres (reduce (CreateBookSuccess b) s) = genres s
   \<and> pagination (reduce (UpdateBookSuccess b) s) = pagination s
   \<and> bookFilter (reduce (UpdateBookSuccess b) s) = bookFilter s
   \<and> statuses (reduce (UpdateBookSuccess b) s) = statuses s
   \<and> genres (reduce (UpdateBookSuccess b) s) = genres s
   \<and> pagination (reduce (DeleteBookSuccess i) s) = pagination s
   \<and> bookFilter (reduce (DeleteBookSuccess i) s) = bookFilter s
   \<and> statuses (reduce (DeleteBookSuccess i) s) = statuses s
   \<and> genres (reduce (DeleteBookSuccess i) s) = genres s"
    by (simp add: createBookSuccess_def updateBookSuccess_def deleteBookSuccess_def)
  have only: "pagination (reduce a s) \<noteq> pagination s \<longrightarrow> (\<exists>r. a = FetchPaginatedBooksSuccess r)"
    by (cases a)
       (simp_all add: fetchPaginatedBooks_def fetchPaginatedBooksError_def
          fetchBooks_def fetchBooksSuccess_def fetchBooksError_def
          fetchBookById_def fetchBookByIdSuccess_def fetchBookByIdError_def
          createBook_def createBookSuccess_def createBookError_def
          updateBook_def updateBookSuccess_def updateBookError_def
          deleteBook_def deleteBookSuccess_def deleteBookError_def
          fetchStatuses_def fetchStatusesSuccess_def fetchStatusesError_def
          fetchGenres_def fetchGenresSuccess_def fetchGenresError_def
          setFilter_def clearFilter_def clearSelectedBook_def)
  from frame only show ?thesis by blast
qed

theorem pagination_frame_witness:
  "pagination (reduce (FetchPaginatedBooksSuccess second_page_response) defaults)
     \<noteq> pagination defaults
   \<and> (\<exists>r. FetchPaginatedBooksSuccess second_page_response = FetchPaginatedBooksSuccess r)"
  using pagination_frame
          [of "book_of 1 ''Dune'' ''Herbert''" defaults 1
              "FetchPaginatedBooksSuccess second_page_response"]
  by (simp add: fetchPaginatedBooksSuccess_def second_page_response_def defaults_def)

subsection \<open>The error field\<close>










section \<open>Properties of the selector \<^verbatim>\<open>filteredBooks\<close>\<close>

text \<open>
  What holds of the selector for every state: it returns the books that pass the
  three filters, each as often as it passed, and in the result no book stands before
  a book that the comparison function ranks strictly before it.
\<close>

lemma mset_insert_pivot: "mset (insert_pivot comparefn p xs) = add_mset p (mset xs)"
  by (induction xs) simp_all

lemma set_insert_pivot: "set (insert_pivot comparefn p xs) = insert p (set xs)"
  by (induction xs) auto

lemma mset_foldl_insert:
  "mset (foldl (\<lambda>placed pivot. insert_pivot comparefn pivot placed) acc xs) = mset acc + mset xs"
  by (induction xs arbitrary: acc) (simp_all add: mset_insert_pivot)

lemma mset_array_sort: "mset (array_sort comparefn xs) = mset xs"
  by (simp add: array_sort_def mset_foldl_insert)

lemma sorted_insert_pivot:
  assumes tot: "\<And>a b. comparefn a b < 0 \<or> comparefn b a < 0"
    and trans: "\<And>a b c. comparefn a b < 0 \<Longrightarrow> comparefn b c < 0 \<Longrightarrow> comparefn a c < 0"
  shows "sorted_wrt (\<lambda>a b. comparefn a b < 0) xs \<Longrightarrow>
         sorted_wrt (\<lambda>a b. comparefn a b < 0) (insert_pivot comparefn p xs)"
proof (induction xs)
  case Nil
  show ?case by simp
next
  case (Cons e es)
  show ?case
  proof (cases "comparefn p e < 0")
    case True
    with Cons.prems trans show ?thesis by auto
  next
    case False
    with tot have "comparefn e p < 0" by blast
    with False Cons show ?thesis by (auto simp: set_insert_pivot)
  qed
qed

lemma sorted_foldl_insert:
  assumes tot: "\<And>a b. comparefn a b < 0 \<or> comparefn b a < 0"
    and trans: "\<And>a b c. comparefn a b < 0 \<Longrightarrow> comparefn b c < 0 \<Longrightarrow> comparefn a c < 0"
  shows "sorted_wrt (\<lambda>a b. comparefn a b < 0) acc \<Longrightarrow>
         sorted_wrt (\<lambda>a b. comparefn a b < 0)
           (foldl (\<lambda>placed pivot. insert_pivot comparefn pivot placed) acc xs)"
proof (induction xs arbitrary: acc)
  case Nil
  then show ?case by simp
next
  case (Cons x xs)
  from Cons.prems have "sorted_wrt (\<lambda>a b. comparefn a b < 0) (insert_pivot comparefn x acc)"
    using sorted_insert_pivot [of comparefn acc x] tot trans by blast
  then show ?case using Cons.IH by simp
qed

lemma compareValues_total: "compareValues ord x y < 0 \<or> compareValues ord y x < 0"
  by (auto simp: compareValues_def)

lemma compareValues_trans:
  "compareValues ord x y < 0 \<Longrightarrow> compareValues ord y z < 0 \<Longrightarrow> compareValues ord x z < 0"
  by (auto simp: compareValues_def split: if_splits)

lemma compareBooks_total: "compareBooks f a b < 0 \<or> compareBooks f b a < 0"
  by (cases "sortBy f") (simp_all add: compareBooks_def compareValues_total)

lemma compareBooks_trans:
  "compareBooks f a b < 0 \<Longrightarrow> compareBooks f b c < 0 \<Longrightarrow> compareBooks f a c < 0"
  by (cases "sortBy f") (auto simp: compareBooks_def intro: compareValues_trans)

lemma filteredBooks_members:
  "mset (filteredBooks state)
     = mset (statusFiltered state (genreFiltered state (searchFiltered state)))"
  by (simp add: filteredBooks_def mset_array_sort)

lemma filteredBooks_ordered:
  "sorted_wrt (\<lambda>a b. compareBooks (bookFilter state) a b < 0) (filteredBooks state)"
  unfolding filteredBooks_def array_sort_def
  using sorted_foldl_insert [of "compareBooks (bookFilter state)" "[]"]
    compareBooks_total compareBooks_trans
  by (metis sorted_wrt.simps(1))

text \<open>
  The comparison function for descending order is the one for ascending order with
  its arguments exchanged; and it never answers 0, also for two books with the same
  value in the sort column.
\<close>

lemma compareBooks_descending:
  "compareBooks (f\<lparr>sortOrder := Desc\<rparr>) a b = compareBooks (f\<lparr>sortOrder := Asc\<rparr>) b a"
  by (cases "sortBy f") (simp_all add: compareBooks_def compareValues_def)

lemma compareBooks_never_zero: "compareBooks f a b = 1 \<or> compareBooks f a b = - 1"
  by (cases "sortBy f") (simp_all add: compareBooks_def compareValues_def)

text \<open>
  Claim C7, at two books with the same title. Sorting by title, the comparison
  function answers \<open>-1\<close> for the two books in either order: it ranks each of them
  before the other. The sort then puts the second book first, for ascending and for
  descending order alike; the books do not keep their original order, and the
  descending result is not the reverse of the ascending one.
\<close>

theorem tied_books_change_places:
  "books two_copies = [emma_first, emma_second]
   \<and> compareBooks (bookFilter two_copies) emma_first emma_second = - 1
   \<and> compareBooks (bookFilter two_copies) emma_second emma_first = - 1
   \<and> filteredBooks two_copies = [emma_second, emma_first]
   \<and> filteredBooks (reduce (SetBookFilter (defaultFilter\<lparr>sortOrder := Desc\<rparr>)) two_copies)
       = [emma_second, emma_first]"
  by (simp add: two_copies_def emma_first_def emma_second_def book_of_def defaults_def
        defaultFilter_def filteredBooks_def searchFiltered_def genreFiltered_def
        statusFiltered_def array_sort_def compareBooks_def compareValues_def setFilter_def)

section \<open>Properties of the list component\<close>

text \<open>
  Claim C5. Clicking the header of the active sort column twice gives back the sort
  configuration, and so the direction, that was there before; clicking the header of
  another column selects that column with ascending direction.
\<close>

theorem sort_click_toggles:
  "sortConfig (onSortChange (column (sortConfig c)) (onSortChange (column (sortConfig c)) c))
     = sortConfig c
   \<and> direction (sortConfig (onSortChange (column (sortConfig c))
                   (onSortChange (column (sortConfig c)) c)))
     = direction (sortConfig c)
   \<and> (col \<noteq> column (sortConfig c) \<longrightarrow>
        sortConfig (onSortChange col c) = \<lparr>column = col, direction = Asc\<rparr>)"
  by (cases "direction (sortConfig c)") (simp_all add: onSortChange_def Let_def)

theorem sort_click_toggles_witness:
  "Author \<noteq> column (sortConfig initial_component)
   \<and> sortConfig (onSortChange Author initial_component) = \<lparr>column = Author, direction = Asc\<rparr>"
  using sort_click_toggles [of initial_component Author]
  by (simp add: initial_component_def)

subsection \<open>The page of the request that follows a change\<close>

lemma run_callback_first_page:
  "resets_page cb \<Longrightarrow>
     currentPage_sig (run_callback cb c') = 1
     \<and> dispatched (run_callback cb c') = dispatched c' @ [loadData_params (run_callback cb c')]
     \<and> Page (loadData_params (run_callback cb c')) = 1"
  by (cases cb) (simp_all add: loadData_def loadData_params_def)

lemmas op_defs = onSearch_def onGenreChange_def onStatusChange_def onSortChange_def
  changePageSize_def goToPage_def previousPage_def nextPage_def paginationChanged_def Let_def

lemma step_schedules:
  "filter_change e \<Longrightarrow> \<exists>cb. timers (step e c) = timers c @ [cb] \<and> resets_page cb"
  by (cases e) (simp_all add: op_defs)

lemma settle_snoc:
  "timers c = q @ [cb] \<Longrightarrow> settle c = run_callback cb (fold run_callback q (c\<lparr>timers := []\<rparr>))"
  by (simp add: settle_def)




subsection \<open>The request after a history of changes\<close>

lemma last_set_Nil [simp]: "last_set sel [] d = d"
  by (simp add: last_set_def)

lemma last_set_snoc [simp]:
  "last_set sel (es @ [e]) d = (case sel e of Some v \<Rightarrow> v | None \<Rightarrow> last_set sel es d)"
  by (simp add: last_set_def List.map_filter_def split: option.splits)

lemma sort_after_snoc [simp]: "sort_after (es @ [e]) sc = click e (sort_after es sc)"
  by (simp add: sort_after_def)

lemma run_events_snoc [simp]: "run_events (es @ [e]) c = step e (run_events es c)"
  by (simp add: run_events_def)

lemma only_filter_changes_snoc [simp]:
  "only_filter_changes (es @ [e]) = (only_filter_changes es \<and> (filter_change e \<or> e = Timeout))"
  by (simp add: only_filter_changes_def)

lemma run_callback_frame:
  "searchTerm_sig (run_callback cb c) = searchTerm_sig c
   \<and> selectedGenreId (run_callback cb c) = selectedGenreId c
   \<and> selectedStatusId (run_callback cb c) = selectedStatusId c
   \<and> sortConfig (run_callback cb c) = sortConfig c
   \<and> timers (run_callback cb c) = timers c"
  by (cases cb) (simp_all add: loadData_def)

lemma timeout_frame:
  "searchTerm_sig (timeout c) = searchTerm_sig c
   \<and> selectedGenreId (timeout c) = selectedGenreId c
   \<and> selectedStatusId (timeout c) = selectedStatusId c
   \<and> sortConfig (timeout c) = sortConfig c"
  by (simp add: timeout_def run_callback_frame split: list.splits)

text \<open>
  Search text, genre, status and sort configuration are what the user set last,
  whatever else happens in between.
\<close>

lemma search_after_events:
  "searchTerm_sig (run_events es c0) = last_set search_set es (searchTerm_sig c0)"
proof (induction es rule: rev_induct)
  case Nil
  show ?case by (simp add: run_events_def)
next
  case (snoc e es)
  then show ?case by (cases e) (simp_all add: op_defs timeout_frame)
qed

lemma genre_after_events:
  "selectedGenreId (run_events es c0) = last_set genre_set es (selectedGenreId c0)"
proof (induction es rule: rev_induct)
  case Nil
  show ?case by (simp add: run_events_def)
next
  case (snoc e es)
  then show ?case by (cases e) (simp_all add: op_defs timeout_frame)
qed

lemma status_after_events:
  "selectedStatusId (run_events es c0) = last_set status_set es (selectedStatusId c0)"
proof (induction es rule: rev_induct)
  case Nil
  show ?case by (simp add: run_events_def)
next
  case (snoc e es)
  then show ?case by (cases e) (simp_all add: op_defs timeout_frame)
qed

lemma sort_after_events:
  "sortConfig (run_events es c0) = sort_after es (sortConfig c0)"
proof (induction es rule: rev_induct)
  case Nil
  show ?case by (simp add: run_events_def sort_after_def)
next
  case (snoc e es)
  then show ?case by (cases e) (simp_all add: op_defs timeout_frame)
qed

lemma timeout_size:
  "pending_size (timers (timeout c)) (pageSize_sig (timeout c))
     = pending_size (timers c) (pageSize_sig c)"
proof (cases "timers c")
  case Nil
  then show ?thesis by (simp add: timeout_def)
next
  case (Cons cb rest)
  then show ?thesis by (cases cb) (simp_all add: timeout_def loadData_def)
qed

lemma pending_size_snoc [simp]:
  "pending_size (q @ [cb]) d = (case cb of ApplyPageSize n \<Rightarrow> n | _ \<Rightarrow> pending_size q d)"
  by (induction q d rule: pending_size.induct) (simp_all split: callback.splits)

lemma size_after_events:
  assumes "only_filter_changes es"
  shows "pending_size (timers (run_events es c0)) (pageSize_sig (run_events es c0))
           = last_set size_set es (pending_size (timers c0) (pageSize_sig c0))"
  using assms
proof (induction es rule: rev_induct)
  case Nil
  show ?case by (simp add: run_events_def)
next
  case (snoc e es)
  then show ?case by (cases e) (simp_all add: op_defs timeout_size)
qed

lemma settle_fold:
  "searchTerm_sig (fold run_callback q c) = searchTerm_sig c
   \<and> selectedGenreId (fold run_callback q c) = selectedGenreId c
   \<and> selectedStatusId (fold run_callback q c) = selectedStatusId c
   \<and> sortConfig (fold run_callback q c) = sortConfig c
   \<and> timers (fold run_callback q c) = timers c
   \<and> pageSize_sig (fold run_callback q c) = pending_size q (pageSize_sig c)"
proof (induction q arbitrary: c)
  case Nil
  show ?case by simp
next
  case (Cons cb q)
  show ?case by (cases cb) (simp_all add: Cons loadData_def)
qed

lemma settle_frame:
  "searchTerm_sig (settle c) = searchTerm_sig c
   \<and> selectedGenreId (settle c) = selectedGenreId c
   \<and> selectedStatusId (settle c) = selectedStatusId c
   \<and> sortConfig (settle c) = sortConfig c
   \<and> timers (settle c) = []
   \<and> pageSize_sig (settle c) = pending_size (timers c) (pageSize_sig c)"
  by (simp add: settle_def settle_fold)

lemma settle_page:
  assumes "timers c \<noteq> []" and "resets_page (last (timers c))"
  shows "currentPage_sig (settle c) = 1 \<and> dispatched (settle c) \<noteq> []
         \<and> last (dispatched (settle c)) = loadData_params (settle c)"
proof -
  from assms obtain q cb where q: "timers c = q @ [cb]" and rp: "resets_page cb"
    by (metis append_butlast_last_id)
  have s: "settle c = run_callback cb (fold run_callback q (c\<lparr>timers := []\<rparr>))"
    using q by (rule settle_snoc)
  show ?thesis
    unfolding s
    using run_callback_first_page [OF rp, of "fold run_callback q (c\<lparr>timers := []\<rparr>)"]
    by simp
qed

lemma settle_idle: "timers c = [] \<Longrightarrow> settle c = c"
  by (simp add: settle_def)

lemma timeout_page:
  assumes "timers c \<noteq> []" and "resets_page (hd (timers c))"
  shows "currentPage_sig (timeout c) = 1 \<and> dispatched (timeout c) \<noteq> []
         \<and> last (dispatched (timeout c)) = loadData_params (timeout c)"
  using assms run_callback_first_page [of "hd (timers c)" "c\<lparr>timers := tl (timers c)\<rparr>"]
  by (cases "timers c") (simp_all add: timeout_def)

lemma timeout_idle: "timers c = [] \<Longrightarrow> timeout c = c"
  by (simp add: timeout_def)

lemma timers_timeout: "timers (timeout c) = tl (timers c)"
  by (cases "timers c") (simp_all add: timeout_def run_callback_frame)

lemma step_user_timers: "filter_change e \<Longrightarrow> timers (step e c) \<noteq> []"
  by (cases e) (simp_all add: op_defs)

text \<open>
  In a history of filter changes and timeouts that starts with no callback waiting,
  every waiting callback is one that puts the page back to 1.
\<close>

lemma timers_reset_page:
  assumes "timers c0 = []" and "only_filter_changes es"
  shows "list_all resets_page (timers (run_events es c0))"
  using assms(2)
proof (induction es rule: rev_induct)
  case Nil
  show ?case using assms(1) by (simp add: run_events_def)
next
  case (snoc e es)
  then have ih: "list_all resets_page (timers (run_events es c0))"
    and e: "filter_change e \<or> e = Timeout" by simp_all
  show ?case
  proof (cases "e = Timeout")
    case True
    with ih show ?thesis
      by (cases "timers (run_events es c0)") (simp_all add: timers_timeout)
  next
    case False
    with e have "filter_change e" by blast
    then obtain cb where "timers (step e (run_events es c0)) = timers (run_events es c0) @ [cb]"
      and "resets_page cb"
      using step_schedules by blast
    with ih show ?thesis by simp
  qed
qed

lemma page_after_events:
  assumes "timers c0 = []" and "only_filter_changes es"
  shows "(user_changes es = [] \<longrightarrow> run_events es c0 = c0)
       \<and> (user_changes es \<noteq> [] \<longrightarrow>
            timers (run_events es c0) \<noteq> []
            \<or> (currentPage_sig (run_events es c0) = 1 \<and> dispatched (run_events es c0) \<noteq> []
               \<and> last (dispatched (run_events es c0)) = loadData_params (run_events es c0)))"
  using assms(2)
proof (induction es rule: rev_induct)
  case Nil
  show ?case by (simp add: run_events_def user_changes_def)
next
  case (snoc e es)
  then have only: "only_filter_changes es" and e: "filter_change e \<or> e = Timeout"
    by simp_all
  note ih = snoc.IH [OF only]
  show ?case
  proof (cases "e = Timeout")
    case True
    show ?thesis
    proof (cases "timers (run_events es c0) = []")
      case True
      with \<open>e = Timeout\<close> ih assms(1) show ?thesis
        by (auto simp: user_changes_def timeout_idle)
    next
      case False
      then have nonidle: "user_changes es \<noteq> []" using ih assms(1) by auto
      from False timers_reset_page [OF assms(1) only]
      have "resets_page (hd (timers (run_events es c0)))"
        by (cases "timers (run_events es c0)") simp_all
      with False
      have "currentPage_sig (timeout (run_events es c0)) = 1
            \<and> dispatched (timeout (run_events es c0)) \<noteq> []
            \<and> last (dispatched (timeout (run_events es c0)))
                = loadData_params (timeout (run_events es c0))"
        by (rule timeout_page)
      with \<open>e = Timeout\<close> nonidle show ?thesis
        by (simp add: user_changes_def)
    qed
  next
    case False
    with e have "filter_change e" by blast
    then have "timers (step e (run_events es c0)) \<noteq> []" by (rule step_user_timers)
    with False show ?thesis by (simp add: user_changes_def)
  qed
qed

lemma show_column_nonempty: "show_column col \<noteq> []"
  by (cases col) simp_all

lemma getBooks_loadData:
  "getBooks (loadData_params c)
     = expected_request (currentPage_sig c) (pageSize_sig c) (searchTerm_sig c)
         (selectedStatusId c) (selectedGenreId c) (sortConfig c)"
  by (simp add: getBooks_def loadData_params_def expected_request_def or_undefined_def
        show_column_nonempty Let_def)

text \<open>
  A history of the five filter changes and of timeouts, with no page navigation and no
  emission of the store in it, that starts with no callback waiting. Once the waiting
  callbacks have run, the request that \<^verbatim>\<open>loadData\<close> builds is made of the search
  text, the status, the genre and the page size set most recently, of the sort
  configuration that the clicks lead to, and of page 1 (of the initial page if the
  user changed nothing); and if the user changed anything, it is the request
  dispatched last. The requests dispatched while callbacks are still waiting are not
  the subject of this lemma.
\<close>

lemma request_reflects_last_settings:
  assumes "timers c0 = []" and "only_filter_changes es"
  shows "getBooks (loadData_params (settle (run_events es c0)))
           = expected_request (if user_changes es = [] then currentPage_sig c0 else 1)
               (last_set size_set es (pageSize_sig c0))
               (last_set search_set es (searchTerm_sig c0))
               (last_set status_set es (selectedStatusId c0))
               (last_set genre_set es (selectedGenreId c0))
               (sort_after es (sortConfig c0))
         \<and> (user_changes es \<noteq> [] \<longrightarrow>
              dispatched (settle (run_events es c0)) \<noteq> []
              \<and> last (dispatched (settle (run_events es c0)))
                  = loadData_params (settle (run_events es c0)))"
proof -
  let ?c = "run_events es c0"
  note pg = page_after_events [OF assms]
  have last_resets: "timers ?c \<noteq> [] \<Longrightarrow> resets_page (last (timers ?c))"
    using timers_reset_page [OF assms] by (simp add: list_all_iff)
  have page: "currentPage_sig (settle ?c) = (if user_changes es = [] then currentPage_sig c0 else 1)"
  proof (cases "user_changes es = []")
    case True
    with pg assms(1) show ?thesis by (simp add: settle_idle)
  next
    case False
    show ?thesis
    proof (cases "timers ?c = []")
      case True
      with False pg show ?thesis by (simp add: settle_idle)
    next
      case nonempty: False
      with settle_page [OF nonempty last_resets] False show ?thesis by simp
    qed
  qed
  have disp: "user_changes es \<noteq> [] \<longrightarrow>
              dispatched (settle ?c) \<noteq> [] \<and> last (dispatched (settle ?c)) = loadData_params (settle ?c)"
  proof (cases "timers ?c = []")
    case True
    with pg show ?thesis by (simp add: settle_idle)
  next
    case nonempty: False
    with settle_page [OF nonempty last_resets] show ?thesis by simp
  qed
  have size: "pageSize_sig (settle ?c) = last_set size_set es (pageSize_sig c0)"
    using size_after_events [OF assms(2), of c0] assms(1) by (simp add: settle_frame)
  have "getBooks (loadData_params (settle ?c))
          = expected_request (currentPage_sig (settle ?c)) (pageSize_sig (settle ?c))
              (searchTerm_sig (settle ?c)) (selectedStatusId (settle ?c))
              (selectedGenreId (settle ?c)) (sortConfig (settle ?c))"
    by (rule getBooks_loadData)
  also have "\<dots> = expected_request (if user_changes es = [] then currentPage_sig c0 else 1)
               (last_set size_set es (pageSize_sig c0))
               (last_set search_set es (searchTerm_sig c0))
               (last_set status_set es (selectedStatusId c0))
               (last_set genre_set es (selectedGenreId c0))
               (sort_after es (sortConfig c0))"
    unfolding page size
    by (simp only: settle_frame search_after_events status_after_events
          genre_after_events sort_after_events)
  finally show ?thesis using disp by blast
qed

text \<open>
  Claim C8, at the status with id 0. The user selects the status whose id is 0 and
  the callback runs: the status signal holds 0, and the request carries no
  \<^verbatim>\<open>StatusId\<close>, as if no status were selected. Selecting the status with id 2
  sends \<^verbatim>\<open>StatusId=2\<close>, and \<^verbatim>\<open>getBooks\<close> itself sends \<^verbatim>\<open>StatusId=0\<close> when it is
  given the id 0: the id is lost in \<^verbatim>\<open>loadData\<close>, by \<^verbatim>\<open>selectedStatusId() || undefined\<close>.
\<close>

theorem status_zero_not_sent:
  "selectedStatusId (settle (run_events [OnStatusChange ''0''] initial_component)) = Num 0
   \<and> getBooks (last (dispatched (settle (run_events [OnStatusChange ''0''] initial_component))))
       = [(''Page'', ''1''), (''PageSize'', ''10''), (''SortBy'', ''title''),
          (''SortDir'', ''asc'')]
   \<and> getBooks (last (dispatched (settle (run_events [OnStatusChange ''2''] initial_component))))
       = [(''Page'', ''1''), (''PageSize'', ''10''), (''StatusId'', ''2''),
          (''SortBy'', ''title''), (''SortDir'', ''asc'')]
   \<and> getBooks (first_page_request\<lparr>StatusId := Num 0\<rparr>)
       = [(''Page'', ''1''), (''PageSize'', ''1''), (''StatusId'', ''0''),
          (''SortBy'', ''title''), (''SortDir'', ''asc'')]"
  by code_simp

end
